theory Spec2Isabelle
  imports Complex_Main "HOL-Library.AList"
begin

section \<open>JavaScript values that cross the client\<close>

text \<open>
  The client of \<^verbatim>\<open>src/api/client.ts\<close> handles values that come out of
  \<^verbatim>\<open>JSON.parse\<close> and \<^verbatim>\<open>response.json()\<close>. TypeScript's
  \<^verbatim>\<open>as AuthTokens\<close> and \<^verbatim>\<open>as ApiError\<close> are erased at run time, so a
  field of the client holds whatever JSON value the text denoted. Finite numbers are taken by
  their exact value; an object is the list of its own properties, read with \<open>map_of\<close>.
\<close>

datatype json =
    JNull
  | JBool bool
  | JNumber rat
  | JString string
  | JArray "json list"
  | JObject "(string \<times> json) list"

text \<open>What a property read gives: \<open>None\<close> is JavaScript's \<^verbatim>\<open>undefined\<close>.\<close>

type_synonym jsval = "json option"

datatype js_exception = TypeError | SyntaxError

text \<open>
  A string that may hold JSON: a response body or the record in \<^verbatim>\<open>localStorage\<close>.
  It is the empty string, the serialisation of a JSON value (identified with the value, so
  \<^verbatim>\<open>JSON.parse(JSON.stringify(v))\<close> is \<open>v\<close>), or text that is no JSON at all.
  A body whose read fails behaves on every path of the client as text that is not JSON.
\<close>

datatype jstext = Empty_text | Json_text json | Garbage_text

fun JSON_parse :: "jstext \<Rightarrow> js_exception + json" where
  "JSON_parse Empty_text = Inl SyntaxError"
| "JSON_parse (Json_text v) = Inr v"
| "JSON_parse Garbage_text = Inl SyntaxError"

definition JSON_stringify :: "json \<Rightarrow> jstext" where
  "JSON_stringify v = Json_text v"

text \<open>Truthiness, as \<^verbatim>\<open>if (x)\<close>, \<^verbatim>\<open>!x\<close> and \<^verbatim>\<open>!!x\<close> test it.\<close>

fun truthy :: "jsval \<Rightarrow> bool" where
  "truthy None = False"
| "truthy (Some JNull) = False"
| "truthy (Some (JBool b)) = b"
| "truthy (Some (JNumber q)) = (q \<noteq> 0)"
| "truthy (Some (JString s)) = (s \<noteq> [])"
| "truthy (Some (JArray xs)) = True"
| "truthy (Some (JObject fs)) = True"

text \<open>
  \<^verbatim>\<open>v.name\<close> for a name that no prototype defines (\<^verbatim>\<open>accessToken\<close>,
  \<^verbatim>\<open>refreshToken\<close>, \<^verbatim>\<open>status\<close>): reading from \<^verbatim>\<open>null\<close> throws,
  an object gives its own property, every other value gives \<^verbatim>\<open>undefined\<close>.
\<close>

fun get_prop :: "json \<Rightarrow> string \<Rightarrow> js_exception + jsval" where
  "get_prop JNull name = Inl TypeError"
| "get_prop (JObject fs) name = Inr (map_of fs name)"
| "get_prop v name = Inr None"

text \<open>Decimal numerals, the property names of array elements and string characters.\<close>

definition digit_char :: "nat \<Rightarrow> char" where
  "digit_char d = char_of (48 + d)"

fun show_nat :: "nat \<Rightarrow> string" where
  "show_nat n = (if n < 10 then [digit_char n] else show_nat (n div 10) @ [digit_char (n mod 10)])"

declare show_nat.simps [simp del]

text \<open>The own enumerable properties that \<^verbatim>\<open>{...v}\<close> copies.\<close>

fun spread :: "json \<Rightarrow> (string \<times> json) list" where
  "spread (JObject fs) = fs"
| "spread (JArray xs) = zip (map show_nat [0..<length xs]) xs"
| "spread (JString s) = zip (map show_nat [0..<length s]) (map (\<lambda>ch. JString [ch]) s)"
| "spread v = []"

section \<open>The token store\<close>

text \<open>
  The fields of \<^verbatim>\<open>ApiClient\<close>, and the one record of \<^verbatim>\<open>localStorage\<close> under
  the key \<^verbatim>\<open>safewalk_tokens\<close> (\<open>None\<close>: no such key). The promise is known by a
  number. Storage operations are taken to succeed.
\<close>

record client =
  accessToken :: jsval
  refreshToken :: jsval
  isRefreshing :: bool
  refreshPromise :: "nat option"
  storage :: "jstext option"

definition clearTokens :: "client \<Rightarrow> client" where
  "clearTokens c = c\<lparr>accessToken := Some JNull, refreshToken := Some JNull, storage := None\<rparr>"

definition setTokens :: "json \<Rightarrow> client \<Rightarrow> js_exception + client" where
  "setTokens tokens c =
     (case get_prop tokens ''accessToken'' of
        Inl e \<Rightarrow> Inl e
      | Inr a \<Rightarrow>
          (case get_prop tokens ''refreshToken'' of
             Inl e \<Rightarrow> Inl e
           | Inr r \<Rightarrow>
               Inr (c\<lparr>accessToken := a, refreshToken := r,
                       storage := Some (JSON_stringify tokens)\<rparr>)))"

text \<open>
  \<^verbatim>\<open>loadTokens\<close>: an absent or empty record is skipped; whatever the
  \<^verbatim>\<open>try\<close> block throws leads to \<^verbatim>\<open>clearTokens\<close>.
\<close>

definition loadTokens :: "client \<Rightarrow> client" where
  "loadTokens c =
     (case storage c of
        None \<Rightarrow> c
      | Some tokens \<Rightarrow>
          if tokens = Empty_text then c
          else
            (case JSON_parse tokens of
               Inl e \<Rightarrow> clearTokens c
             | Inr parsed \<Rightarrow>
                 (case get_prop parsed ''accessToken'' of
                    Inl e \<Rightarrow> clearTokens c
                  | Inr a \<Rightarrow>
                      (case get_prop parsed ''refreshToken'' of
                         Inl e \<Rightarrow> clearTokens (c\<lparr>accessToken := a\<rparr>)
                       | Inr r \<Rightarrow> c\<lparr>accessToken := a, refreshToken := r\<rparr>))))"

text \<open>The field initialisers followed by the constructor, over a given storage.\<close>

definition new_client :: "jstext option \<Rightarrow> client" where
  "new_client st =
     loadTokens \<lparr>accessToken = Some JNull, refreshToken = Some JNull, isRefreshing = False,
       refreshPromise = None, storage = st\<rparr>"

definition getAccessToken :: "client \<Rightarrow> jsval" where
  "getAccessToken c = accessToken c"

definition isAuthenticated :: "client \<Rightarrow> bool" where
  "isAuthenticated c = truthy (accessToken c)"

definition logout :: "client \<Rightarrow> client" where
  "logout c = clearTokens c"

section \<open>The network as the client sees it\<close>

record response =
  status :: nat
  statusText :: string
  body :: jstext

text \<open>\<^verbatim>\<open>response.ok\<close> is the Fetch standard's test of the status.\<close>

definition ok :: "response \<Rightarrow> bool" where
  "ok r = (200 \<le> status r \<and> status r \<le> 299)"

definition response_json :: "response \<Rightarrow> js_exception + json" where
  "response_json r = JSON_parse (body r)"

text \<open>A \<^verbatim>\<open>fetch\<close> settles with a response, or rejects when none arrives.\<close>

datatype fetch_result = Network_failure | Response response

text \<open>
  A header value is a plain string or the template \<^verbatim>\<open>`Bearer ${token}`\<close>, kept with the
  value it interpolates.
\<close>

datatype header_value = Plain string | Bearer jsval

record options =
  opt_method :: "string option"
  opt_body :: "string option"
  opt_headers :: "(string \<times> string) list"

text \<open>The calls a client puts on the network, in the order it makes them.\<close>

datatype call =
    Api_call string "(string \<times> header_value) list"
  | Refresh_call jsval

section \<open>Errors\<close>

text \<open>
  What \<^verbatim>\<open>request\<close> can throw: an object literal, kept as its property list, or a
  JavaScript exception, which has no \<^verbatim>\<open>status\<close> property.
\<close>

datatype thrown = Thrown_object "(string \<times> json) list" | Thrown_error js_exception

fun status_of :: "thrown \<Rightarrow> jsval" where
  "status_of (Thrown_object fs) = map_of fs ''status''"
| "status_of (Thrown_error e) = None"

definition session_expired :: thrown where
  "session_expired =
     Thrown_object [(''status'', JNumber 401),
       (''message'', JString ''Session expired. Please login again.'')]"

definition network_error :: thrown where
  "network_error =
     Thrown_object [(''status'', JNumber 0),
       (''message'', JString ''Network error. Please check your connection.'')]"

text \<open>The \<^verbatim>\<open>catch (error)\<close> clause that closes \<^verbatim>\<open>request\<close>.\<close>

definition catch_all :: "thrown \<Rightarrow> thrown" where
  "catch_all error = (if truthy (status_of error) then error else network_error)"

text \<open>
  The \<^verbatim>\<open>!response.ok\<close> branch: the body as JSON, or the status line when
  \<^verbatim>\<open>response.json()\<close> rejects; then \<^verbatim>\<open>{ ...errorData, status: response.status }\<close>.
\<close>

definition error_data :: "response \<Rightarrow> json" where
  "error_data r =
     (case response_json r of
        Inr v \<Rightarrow> v
      | Inl e \<Rightarrow> JObject [(''status'', JNumber (of_nat (status r))),
                          (''message'', JString (statusText r))])"

definition error_of :: "response \<Rightarrow> thrown" where
  "error_of r =
     Thrown_object (AList.update ''status'' (JNumber (of_nat (status r))) (spread (error_data r)))"

text \<open>
  The part of the \<^verbatim>\<open>try\<close> block after the 401 test: a failed status throws, an empty
  body is the empty object, any other body goes to \<^verbatim>\<open>JSON.parse\<close>.
\<close>

definition read_response :: "response \<Rightarrow> thrown + json" where
  "read_response r =
     (if \<not> ok r then Inl (error_of r)
      else if body r = Empty_text then Inr (JObject [])
      else (case JSON_parse (body r) of
              Inl e \<Rightarrow> Inl (Thrown_error e)
            | Inr v \<Rightarrow> Inr v))"

definition caught :: "thrown + json \<Rightarrow> thrown + json" where
  "caught res = (case res of Inl e \<Rightarrow> Inl (catch_all e) | Inr v \<Rightarrow> Inr v)"

section \<open>The refresh exchange\<close>

text \<open>
  The body of the asynchronous function inside \<^verbatim>\<open>refreshAccessToken\<close>, from the moment
  its \<^verbatim>\<open>fetch\<close> settles: the \<^verbatim>\<open>try\<close>, the \<^verbatim>\<open>catch\<close> and the
  \<^verbatim>\<open>finally\<close>.
\<close>

definition refresh_exchange :: "fetch_result \<Rightarrow> client \<Rightarrow> bool \<times> client" where
  "refresh_exchange r c =
     (let (b, c') =
        (case r of
           Network_failure \<Rightarrow> (False, clearTokens c)
         | Response resp \<Rightarrow>
             if \<not> ok resp then (False, clearTokens c)
             else
               (case response_json resp of
                  Inl e \<Rightarrow> (False, clearTokens c)
                | Inr tokens \<Rightarrow>
                    (case setTokens tokens c of
                       Inl e \<Rightarrow> (False, clearTokens c)
                     | Inr c1 \<Rightarrow> (True, c1))))
      in (b, c'\<lparr>isRefreshing := False, refreshPromise := None\<rparr>))"

section \<open>One call running on its own\<close>

text \<open>
  A logical call makes at most three exchanges with the network: its own
  \<^verbatim>\<open>fetch\<close>, the refresh exchange, and the \<^verbatim>\<open>fetch\<close> of its retry. The
  environment is the three results these settle with; a theorem about every environment is
  a theorem about every backend.
\<close>

record network =
  reply :: fetch_result
  refresh_reply :: fetch_result
  retry_reply :: fetch_result

text \<open>
  \<^verbatim>\<open>refreshAccessToken\<close>. With no refresh token it resolves to \<^verbatim>\<open>false\<close> at once.
  With an exchange in flight the caller is handed that exchange's promise, and the outcome is
  the one the exchange settles with. Otherwise the markers are set and a new exchange is put
  on the network.
\<close>

definition refreshAccessToken :: "fetch_result \<Rightarrow> client \<Rightarrow> bool \<times> client \<times> call list" where
  "refreshAccessToken r c =
     (if \<not> truthy (refreshToken c) then (False, c, [])
      else if isRefreshing c \<and> refreshPromise c \<noteq> None then
        (case refresh_exchange r c of (b, c') \<Rightarrow> (b, c', []))
      else
        (case refresh_exchange r (c\<lparr>isRefreshing := True, refreshPromise := Some 0\<rparr>) of
           (b, c') \<Rightarrow> (b, c', [Refresh_call (refreshToken c)])))"

text \<open>
  The headers of \<^verbatim>\<open>request\<close>: the content type, the caller's own headers over it, and
  the bearer token when the call requires authorisation and an access token is held.
\<close>

definition caller_headers :: "options \<Rightarrow> (string \<times> header_value) list" where
  "caller_headers opts =
     fold (\<lambda>(k, v). AList.update k (Plain v)) (opt_headers opts)
       [(''Content-Type'', Plain ''application/json'')]"

definition build_headers :: "options \<Rightarrow> bool \<Rightarrow> client \<Rightarrow> (string \<times> header_value) list" where
  "build_headers opts requiresAuth c =
     (if requiresAuth \<and> truthy (accessToken c)
      then AList.update ''Authorization'' (Bearer (accessToken c)) (caller_headers opts)
      else caller_headers opts)"

text \<open>
  \<^verbatim>\<open>request\<close>. The result is what the returned promise settles with, the client
  afterwards, and the calls put on the network. The retry is returned from inside the
  \<^verbatim>\<open>try\<close> without being awaited there, so its outcome does not pass through this
  call's \<^verbatim>\<open>catch\<close> (the retry has passed it through its own).
\<close>

function request ::
  "network \<Rightarrow> string \<Rightarrow> options \<Rightarrow> bool \<Rightarrow> bool \<Rightarrow> client
     \<Rightarrow> (thrown + json) \<times> client \<times> call list" where
  "request net endpoint opts requiresAuth retryOnUnauthorized c =
     (let sent = Api_call endpoint (build_headers opts requiresAuth c) in
      case reply net of
        Network_failure \<Rightarrow> (caught (Inl (Thrown_error TypeError)), c, [sent])
      | Response resp \<Rightarrow>
          if status resp = 401 \<and> requiresAuth \<and> retryOnUnauthorized then
            (case refreshAccessToken (refresh_reply net) c of
               (refreshed, c', rcalls) \<Rightarrow>
                 if refreshed then
                   (case request (net\<lparr>reply := retry_reply net\<rparr>) endpoint opts requiresAuth False c' of
                      (res, c'', calls) \<Rightarrow> (res, c'', sent # rcalls @ calls))
                 else (caught (Inl session_expired), c', sent # rcalls))
          else (caught (read_response resp), c, [sent]))"
  by pat_completeness auto
termination
  by (relation "measure (\<lambda>(net, endpoint, opts, requiresAuth, retryOnUnauthorized, c).
        if retryOnUnauthorized then 1 else 0)") auto

declare request.simps [simp del]

text \<open>
  \<^verbatim>\<open>login\<close> and \<^verbatim>\<open>register\<close>: an unauthenticated request, then
  \<^verbatim>\<open>setTokens\<close> on what it returned; an exception of \<^verbatim>\<open>setTokens\<close> is the
  caller's.
\<close>

definition store_tokens :: "(thrown + json) \<times> client \<times> call list
    \<Rightarrow> (thrown + json) \<times> client \<times> call list" where
  "store_tokens out =
     (case out of
        (Inl e, c, calls) \<Rightarrow> (Inl e, c, calls)
      | (Inr tokens, c, calls) \<Rightarrow>
          (case setTokens tokens c of
             Inl e \<Rightarrow> (Inl (Thrown_error e), c, calls)
           | Inr c' \<Rightarrow> (Inr tokens, c', calls)))"

definition login_options :: options where
  "login_options = \<lparr>opt_method = Some ''POST'', opt_body = None, opt_headers = []\<rparr>"

definition login :: "network \<Rightarrow> string \<Rightarrow> client \<Rightarrow> (thrown + json) \<times> client \<times> call list" where
  "login net endpoint c = store_tokens (request net endpoint login_options False True c)"

definition register_options :: "string \<Rightarrow> options" where
  "register_options data = \<lparr>opt_method = Some ''POST'', opt_body = Some data, opt_headers = []\<rparr>"

definition register ::
  "network \<Rightarrow> string \<Rightarrow> client \<Rightarrow> (thrown + json) \<times> client \<times> call list" where
  "register net data c =
     store_tokens (request net ''/api/v1/auth/register'' (register_options data) False True c)"

section \<open>Vocabulary of the statements\<close>

fun is_api_call :: "call \<Rightarrow> bool" where
  "is_api_call (Api_call endpoint headers) = True"
| "is_api_call (Refresh_call token) = False"

fun is_refresh_call :: "call \<Rightarrow> bool" where
  "is_refresh_call (Refresh_call token) = True"
| "is_refresh_call (Api_call endpoint headers) = False"

text \<open>
  The value a refresh exchange hands to \<^verbatim>\<open>setTokens\<close> without an exception: the JSON
  body of a successful response, unless it is \<^verbatim>\<open>null\<close>.
\<close>

definition obtained_pair :: "fetch_result \<Rightarrow> json option" where
  "obtained_pair r =
     (case r of
        Network_failure \<Rightarrow> None
      | Response resp \<Rightarrow>
          if ok resp then
            (case body resp of
               Json_text v \<Rightarrow> if v = JNull then None else Some v
             | _ \<Rightarrow> None)
          else None)"

definition persisted :: "json \<Rightarrow> client \<Rightarrow> bool" where
  "persisted v c \<longleftrightarrow>
     get_prop v ''accessToken'' = Inr (accessToken c) \<and>
     get_prop v ''refreshToken'' = Inr (refreshToken c) \<and>
     storage c = Some (JSON_stringify v)"

definition cleared :: "client \<Rightarrow> bool" where
  "cleared c \<longleftrightarrow> accessToken c = Some JNull \<and> refreshToken c = Some JNull \<and> storage c = None"

text \<open>
  A fetch that leaves \<^verbatim>\<open>request\<close> with nothing carrying a truthy status: no response,
  a response of status 0, or a successful response whose body is neither empty nor JSON.
\<close>

definition no_usable_answer :: "fetch_result \<Rightarrow> bool" where
  "no_usable_answer r =
     (case r of
        Network_failure \<Rightarrow> True
      | Response resp \<Rightarrow>
          status resp = 0 \<or>
          (ok resp \<and> body resp \<noteq> Empty_text \<and> (case JSON_parse (body resp) of Inl e \<Rightarrow> True | Inr v \<Rightarrow> False)))"

text \<open>
  The operations that touch the credentials, run one after the other on a client, and the
  states they reach from a freshly constructed one.
\<close>

datatype operation =
    Save json
  | Load
  | Clear
  | Refresh fetch_result
  | Login network string
  | Register network string
  | Logout
  | Request network string options bool bool

fun perform :: "operation \<Rightarrow> client \<Rightarrow> client" where
  "perform (Save tokens) c = (case setTokens tokens c of Inl e \<Rightarrow> c | Inr c' \<Rightarrow> c')"
| "perform Load c = loadTokens c"
| "perform Clear c = clearTokens c"
| "perform (Refresh r) c = fst (snd (refreshAccessToken r c))"
| "perform (Login net endpoint) c = fst (snd (login net endpoint c))"
| "perform (Register net data) c = fst (snd (register net data c))"
| "perform Logout c = logout c"
| "perform (Request net endpoint opts requiresAuth retry) c =
     fst (snd (request net endpoint opts requiresAuth retry c))"

text \<open>A credential is held when the field is truthy, the test the client itself makes.\<close>

definition whole :: "client \<Rightarrow> bool" where
  "whole c \<longleftrightarrow> (truthy (accessToken c) \<longleftrightarrow> truthy (refreshToken c))"

text \<open>
  A credential pair as the backend is meant to issue it: an object with both tokens as
  non-empty strings. The predicates below say that every JSON value which reaches
  \<^verbatim>\<open>loadTokens\<close> or \<^verbatim>\<open>setTokens\<close> is such a pair.
\<close>

fun nonempty_string :: "jsval \<Rightarrow> bool" where
  "nonempty_string (Some (JString s)) = (s \<noteq> [])"
| "nonempty_string x = False"

definition is_pair :: "json \<Rightarrow> bool" where
  "is_pair v =
     (case v of
        JObject fs \<Rightarrow>
          nonempty_string (map_of fs ''accessToken'') \<and> nonempty_string (map_of fs ''refreshToken'')
      | _ \<Rightarrow> False)"

definition pair_text :: "jstext \<Rightarrow> bool" where
  "pair_text t = (case t of Json_text v \<Rightarrow> is_pair v | _ \<Rightarrow> True)"

definition pair_record :: "jstext option \<Rightarrow> bool" where
  "pair_record st = (case st of None \<Rightarrow> True | Some t \<Rightarrow> pair_text t)"

definition pair_reply :: "fetch_result \<Rightarrow> bool" where
  "pair_reply r =
     (case r of Network_failure \<Rightarrow> True
      | Response resp \<Rightarrow> ok resp \<longrightarrow> pair_text (body resp))"

fun pair_operation :: "operation \<Rightarrow> bool" where
  "pair_operation (Save tokens) = is_pair tokens"
| "pair_operation (Refresh r) = pair_reply r"
| "pair_operation (Login net endpoint) = pair_reply (reply net)"
| "pair_operation (Register net data) = pair_reply (reply net)"
| "pair_operation (Request net endpoint opts requiresAuth retry) = pair_reply (refresh_reply net)"
| "pair_operation op = True"

text \<open>The invariant behind the pairing of the two fields, which also covers the stored record.\<close>

definition balanced :: "json \<Rightarrow> bool" where
  "balanced v \<longleftrightarrow>
     (case (get_prop v ''accessToken'', get_prop v ''refreshToken'') of
        (Inr a, Inr r) \<Rightarrow> truthy a = truthy r
      | _ \<Rightarrow> True)"

definition sound :: "client \<Rightarrow> bool" where
  "sound c \<longleftrightarrow> whole c \<and> (\<forall>v. storage c = Some (Json_text v) \<longrightarrow> balanced v)"

section \<open>Calls that overlap\<close>

text \<open>
  JavaScript runs the client on one thread: a call runs until its next \<^verbatim>\<open>await\<close>, and
  other calls run while it waits. The world is the client together with every call of
  \<^verbatim>\<open>request\<close> still under way, the promises that \<^verbatim>\<open>refreshAccessToken\<close> has
  handed out, and the calls put on the network so far. A call of \<^verbatim>\<open>request\<close> waits
  for its \<^verbatim>\<open>fetch\<close>, or for the promise of a refresh (known by its number), or has
  settled with its result.
\<close>

datatype phase = Awaiting_fetch | Awaiting_refresh nat | Settled "thrown + json"

record task =
  task_endpoint :: string
  task_options :: options
  task_auth :: bool
  task_retry :: bool
  task_phase :: phase

record world =
  the_client :: client
  promises :: "bool option list"
  tasks :: "task list"
  wire :: "call list"






definition send :: "task \<Rightarrow> world \<Rightarrow> world" where
  "send t w =
     w\<lparr>wire := wire w @
          [Api_call (task_endpoint t) (build_headers (task_options t) (task_auth t) (the_client w))]\<rparr>"



definition refresh_count :: "world \<Rightarrow> nat" where
  "refresh_count w = length (filter is_refresh_call (wire w))"









section \<open>Sample data\<close>

definition pair_a1r1 :: json where
  "pair_a1r1 = JObject [(''accessToken'', JString ''a1''), (''refreshToken'', JString ''r1'')]"

definition pair_a2r2 :: json where
  "pair_a2r2 = JObject [(''accessToken'', JString ''a2''), (''refreshToken'', JString ''r2'')]"

definition profile :: json where
  "profile = JObject [(''name'', JString ''Ada'')]"

definition holding :: "string \<Rightarrow> string \<Rightarrow> json \<Rightarrow> client" where
  "holding a r stored =
     \<lparr>accessToken = Some (JString a), refreshToken = Some (JString r), isRefreshing = False,
      refreshPromise = None, storage = Some (Json_text stored)\<rparr>"

definition logged_out :: client where
  "logged_out =
     \<lparr>accessToken = Some JNull, refreshToken = Some JNull, isRefreshing = False,
      refreshPromise = None, storage = None\<rparr>"

definition get_options :: options where
  "get_options = \<lparr>opt_method = None, opt_body = None, opt_headers = []\<rparr>"

definition answer :: "nat \<Rightarrow> string \<Rightarrow> jstext \<Rightarrow> fetch_result" where
  "answer code line content = Response \<lparr>status = code, statusText = line, body = content\<rparr>"

definition conflict_body :: json where
  "conflict_body = JObject [(''status'', JNumber 400), (''message'', JString ''Email already registered'')]"

section \<open>Facts about the building blocks\<close>

lemma status_of_error_of: "status_of (error_of r) = Some (JNumber (of_nat (status r)))"
  by (simp add: error_of_def update_conv')

lemma catch_all_error_of: "status r \<noteq> 0 \<Longrightarrow> catch_all (error_of r) = error_of r"
  by (simp add: catch_all_def status_of_error_of)

lemma catch_all_session_expired: "catch_all session_expired = session_expired"
  by (simp add: catch_all_def session_expired_def)

lemma catch_all_exception: "catch_all (Thrown_error x) = network_error"
  by (simp add: catch_all_def)

lemma request_failure:
  "reply net = Network_failure \<Longrightarrow>
   request net endpoint opts requiresAuth retry c =
     (Inl network_error, c, [Api_call endpoint (build_headers opts requiresAuth c)])"
  by (simp add: request.simps[of net endpoint opts requiresAuth retry c] caught_def catch_all_exception Let_def)

lemma request_plain:
  "reply net = Response resp \<Longrightarrow> \<not> (status resp = 401 \<and> requiresAuth \<and> retry) \<Longrightarrow>
   request net endpoint opts requiresAuth retry c =
     (caught (read_response resp), c, [Api_call endpoint (build_headers opts requiresAuth c)])"
  by (auto simp: request.simps[of net endpoint opts requiresAuth retry c] Let_def)

lemma request_unauthorized:
  "reply net = Response resp \<Longrightarrow> status resp = 401 \<Longrightarrow>
   request net endpoint opts True True c =
     (case refreshAccessToken (refresh_reply net) c of
        (refreshed, c', rcalls) \<Rightarrow>
          if refreshed then
            (case request (net\<lparr>reply := retry_reply net\<rparr>) endpoint opts True False c' of
               (res, c'', calls) \<Rightarrow>
                 (res, c'', Api_call endpoint (build_headers opts True c) # rcalls @ calls))
          else (Inl session_expired, c', Api_call endpoint (build_headers opts True c) # rcalls))"
  by (simp add: request.simps[of net endpoint opts True True c] caught_def catch_all_session_expired Let_def
      split: prod.splits)

lemma request_no_retry:
  "request net endpoint opts requiresAuth False c =
     (caught (case reply net of Network_failure \<Rightarrow> Inl (Thrown_error TypeError)
              | Response resp \<Rightarrow> read_response resp), c,
      [Api_call endpoint (build_headers opts requiresAuth c)])"
  by (simp add: request.simps[of net endpoint opts requiresAuth False c] Let_def split: fetch_result.splits)

lemma refresh_calls: "refreshAccessToken r c = (b, c', rcalls) \<Longrightarrow> filter is_api_call rcalls = []"
  by (auto simp: refreshAccessToken_def split: if_splits prod.splits)

lemma refresh_calls_shape:
  "refreshAccessToken r c = (b, c', rcalls) \<Longrightarrow>
     rcalls = [] \<or> rcalls = [Refresh_call (refreshToken c)]"
  by (auto simp: refreshAccessToken_def split: if_splits prod.splits)

lemma request_calls_le2:
  "length (filter is_api_call (snd (snd (request net endpoint opts requiresAuth retry c)))) \<le> 2"
proof (cases "reply net")
  case Network_failure
  then show ?thesis by (simp add: request_failure)
next
  case (Response resp)
  show ?thesis
  proof (cases "status resp = 401 \<and> requiresAuth \<and> retry")
    case False
    with Response show ?thesis by (simp add: request_plain)
  next
    case True
    obtain b c' rcalls where r: "refreshAccessToken (refresh_reply net) c = (b, c', rcalls)"
      by (cases "refreshAccessToken (refresh_reply net) c") auto
    from True Response r refresh_calls[OF r] show ?thesis
      by (simp add: request_unauthorized request_no_retry)
  qed
qed

lemma request_calls_le3:
  "length (snd (snd (request net endpoint opts requiresAuth retry c))) \<le> 3"
proof (cases "reply net")
  case Network_failure
  then show ?thesis by (simp add: request_failure)
next
  case (Response resp)
  show ?thesis
  proof (cases "status resp = 401 \<and> requiresAuth \<and> retry")
    case False
    with Response show ?thesis by (simp add: request_plain)
  next
    case True
    obtain b c' rcalls where r: "refreshAccessToken (refresh_reply net) c = (b, c', rcalls)"
      by (cases "refreshAccessToken (refresh_reply net) c") auto
    from True Response r refresh_calls_shape[OF r] show ?thesis
      by (auto simp: request_unauthorized request_no_retry)
  qed
qed

lemma get_prop_throws: "get_prop v name = Inl e \<longleftrightarrow> v = JNull \<and> e = TypeError"
  by (cases v) auto

lemma setTokens_null: "setTokens JNull c = Inl TypeError"
  by (simp add: setTokens_def)

lemma setTokens_value:
  "v \<noteq> JNull \<Longrightarrow> \<exists>a r. get_prop v ''accessToken'' = Inr a \<and> get_prop v ''refreshToken'' = Inr r \<and>
     setTokens v c = Inr (c\<lparr>accessToken := a, refreshToken := r, storage := Some (JSON_stringify v)\<rparr>)"
  by (cases v) (auto simp: setTokens_def)

lemma refresh_exchange_obtained:
  "obtained_pair r = Some v \<Longrightarrow>
     \<exists>c'. refresh_exchange r c = (True, c') \<and> persisted v c' \<and> \<not> isRefreshing c' \<and> refreshPromise c' = None"
  using setTokens_value[of v c]
  by (auto simp: obtained_pair_def refresh_exchange_def response_json_def persisted_def
      split: fetch_result.splits if_splits jstext.splits)

lemma refresh_exchange_failed:
  "obtained_pair r = None \<Longrightarrow>
     \<exists>c'. refresh_exchange r c = (False, c') \<and> cleared c' \<and> \<not> isRefreshing c' \<and> refreshPromise c' = None"
  by (auto simp: obtained_pair_def refresh_exchange_def response_json_def cleared_def clearTokens_def
      setTokens_null split: fetch_result.splits if_splits jstext.splits)

lemma new_client_absent:
  "st = None \<or> st = Some Empty_text \<Longrightarrow>
     accessToken (new_client st) = Some JNull \<and> refreshToken (new_client st) = Some JNull
     \<and> storage (new_client st) = st"
  by (auto simp: new_client_def loadTokens_def)

lemma new_client_unparsable:
  "st = Some Garbage_text \<or> st = Some (Json_text JNull) \<Longrightarrow> cleared (new_client st)"
  by (auto simp: new_client_def loadTokens_def cleared_def clearTokens_def)

lemma new_client_json:
  "v \<noteq> JNull \<Longrightarrow> persisted v (new_client (Some (Json_text v)))"
  by (cases v) (auto simp: new_client_def loadTokens_def persisted_def JSON_stringify_def)

lemma caught_read_response_falsy:
  "caught (read_response resp) = Inl e \<Longrightarrow> \<not> truthy (status_of e) \<Longrightarrow>
     e = network_error \<and> no_usable_answer (Response resp)"
  by (auto simp: caught_def read_response_def catch_all_def status_of_error_of no_usable_answer_def
      network_error_def split: if_splits sum.splits)

lemma no_usable_answer_throws:
  "no_usable_answer r \<Longrightarrow>
     caught (case r of Network_failure \<Rightarrow> Inl (Thrown_error TypeError) | Response resp \<Rightarrow> read_response resp)
       = Inl network_error"
  by (auto simp: caught_def read_response_def catch_all_def status_of_error_of no_usable_answer_def
      ok_def split: fetch_result.splits sum.splits)

lemma truthy_session_expired: "truthy (status_of session_expired)"
  by (simp add: session_expired_def)

lemma request_falsy_error:
  assumes "fst (request net endpoint opts requiresAuth retry c) = Inl e"
    and "\<not> truthy (status_of e)"
  shows "e = network_error \<and> (no_usable_answer (reply net) \<or> no_usable_answer (retry_reply net))"
proof (cases "reply net")
  case Network_failure
  with assms show ?thesis by (simp add: request_failure no_usable_answer_def)
next
  case (Response resp)
  show ?thesis
  proof (cases "status resp = 401 \<and> requiresAuth \<and> retry")
    case False
    with Response assms caught_read_response_falsy[of resp e] show ?thesis
      by (auto simp: request_plain)
  next
    case True
    obtain b c' rcalls where r: "refreshAccessToken (refresh_reply net) c = (b, c', rcalls)"
      by (cases "refreshAccessToken (refresh_reply net) c") auto
    show ?thesis
    proof (cases b)
      case False
      with True Response r assms truthy_session_expired show ?thesis
        by (auto simp: request_unauthorized)
    next
      case b: True
      show ?thesis
      proof (cases "retry_reply net")
        case Network_failure
        with True Response r b assms show ?thesis
          by (auto simp: request_unauthorized request_no_retry caught_def catch_all_exception
              no_usable_answer_def)
      next
        case second: (Response resp2)
        with True Response r b assms caught_read_response_falsy[of resp2 e] show ?thesis
          by (auto simp: request_unauthorized request_no_retry)
      qed
    qed
  qed
qed


lemma map_of_fold_update:
  "map_of (fold (\<lambda>(k, v). AList.update k (f v)) xs acc) key = None
     \<longleftrightarrow> key \<notin> fst ` set xs \<and> map_of acc key = None"
  by (induction xs arbitrary: acc) (auto simp: update_conv' split: prod.splits)

lemma caller_headers_authorization:
  "map_of (caller_headers opts) ''Authorization'' = None
     \<longleftrightarrow> ''Authorization'' \<notin> fst ` set (opt_headers opts)"
  by (simp add: caller_headers_def map_of_fold_update)

lemma map_of_fold_update_plain:
  "(\<forall>v. map_of acc key \<noteq> Some (Bearer v)) \<Longrightarrow>
   map_of (fold (\<lambda>(k, v). AList.update k (Plain v)) xs acc) key \<noteq> Some (Bearer t)"
  by (induction xs arbitrary: acc) (auto simp: update_conv' split: prod.splits)

section \<open>The pairing invariant\<close>

lemma nonempty_string_truthy: "nonempty_string x \<Longrightarrow> truthy x"
  by (cases x rule: nonempty_string.cases) auto

lemma is_pair_balanced: "is_pair v \<Longrightarrow> balanced v"
  by (cases v) (simp_all add: is_pair_def balanced_def nonempty_string_truthy)

lemma balanced_empty: "balanced (JObject [])"
  by (simp add: balanced_def)

lemma sound_clearTokens: "sound (clearTokens c)"
  by (simp add: sound_def whole_def clearTokens_def)

lemma sound_setTokens: "balanced v \<Longrightarrow> setTokens v c = Inr c' \<Longrightarrow> sound c'"
  by (auto simp: sound_def whole_def setTokens_def balanced_def JSON_stringify_def split: sum.splits)

lemma sound_loadTokens:
  assumes "sound c"
  shows "sound (loadTokens c)"
proof (cases "storage c")
  case None
  with assms show ?thesis by (simp add: loadTokens_def)
next
  case (Some t)
  show ?thesis
  proof (cases t)
    case Empty_text
    with Some assms show ?thesis by (simp add: loadTokens_def)
  next
    case Garbage_text
    with Some show ?thesis by (simp add: loadTokens_def sound_clearTokens)
  next
    case (Json_text v)
    with Some assms have bal: "balanced v" by (simp add: sound_def)
    show ?thesis
    proof (cases "v = JNull")
      case True
      with Some Json_text show ?thesis by (simp add: loadTokens_def sound_clearTokens)
    next
      case False
      then obtain a r where a: "get_prop v ''accessToken'' = Inr a"
        and r: "get_prop v ''refreshToken'' = Inr r"
        by (cases v) auto
      from a r Some Json_text have l: "loadTokens c = c\<lparr>accessToken := a, refreshToken := r\<rparr>"
        by (simp add: loadTokens_def)
      from a r bal have "truthy a = truthy r" by (simp add: balanced_def)
      with assms show ?thesis unfolding l by (simp add: sound_def whole_def)
    qed
  qed
qed

lemma sound_markers: "sound c \<Longrightarrow> sound (c\<lparr>isRefreshing := x, refreshPromise := y\<rparr>)"
  by (simp add: sound_def whole_def)

lemma sound_refresh_exchange:
  "pair_reply r \<Longrightarrow> refresh_exchange r c = (b, c') \<Longrightarrow> sound c'"
  by (auto simp: refresh_exchange_def pair_reply_def pair_text_def response_json_def
      intro!: sound_markers sound_clearTokens dest: is_pair_balanced sound_setTokens
      split: fetch_result.splits if_splits sum.splits jstext.splits)

lemma sound_refreshAccessToken:
  "pair_reply r \<Longrightarrow> sound c \<Longrightarrow> sound (fst (snd (refreshAccessToken r c)))"
  by (auto simp: refreshAccessToken_def split: prod.splits dest: sound_refresh_exchange)

lemma sound_request:
  assumes "pair_reply (refresh_reply net)" and "sound c"
  shows "sound (fst (snd (request net endpoint opts requiresAuth retry c)))"
proof (cases "reply net")
  case Network_failure
  with assms show ?thesis by (simp add: request_failure)
next
  case (Response resp)
  show ?thesis
  proof (cases "status resp = 401 \<and> requiresAuth \<and> retry")
    case False
    with Response assms show ?thesis by (simp add: request_plain)
  next
    case True
    with Response sound_refreshAccessToken[OF assms] show ?thesis
      by (auto simp: request_unauthorized request_no_retry split: prod.splits)
  qed
qed

lemma read_response_balanced:
  "pair_reply (Response resp) \<Longrightarrow> caught (read_response resp) = Inr v \<Longrightarrow> balanced v"
  by (auto simp: pair_reply_def pair_text_def read_response_def caught_def balanced_empty
      dest: is_pair_balanced split: if_splits sum.splits jstext.splits)

lemma sound_store_tokens:
  assumes "pair_reply (reply net)" and "sound c"
  shows "sound (fst (snd (store_tokens (request net endpoint opts False retry c))))"
proof (cases "reply net")
  case Network_failure
  with assms show ?thesis by (simp add: request_failure store_tokens_def)
next
  case (Response resp)
  with assms read_response_balanced[of resp] show ?thesis
    by (auto simp: request_plain store_tokens_def split: sum.splits dest: sound_setTokens)
qed

lemma sound_perform: "pair_operation op \<Longrightarrow> sound c \<Longrightarrow> sound (perform op c)"
proof (cases op)
  case (Save v)
  then show "pair_operation op \<Longrightarrow> sound c \<Longrightarrow> ?thesis"
    by (auto split: sum.splits dest: is_pair_balanced sound_setTokens)
qed (auto simp: sound_loadTokens sound_clearTokens sound_refreshAccessToken sound_request
      sound_store_tokens login_def register_def logout_def)

lemma sound_fold:
  "list_all pair_operation ops \<Longrightarrow> sound c \<Longrightarrow> sound (fold perform ops c)"
  by (induction ops arbitrary: c) (auto simp: sound_perform)

lemma sound_new_client: "pair_record st \<Longrightarrow> sound (new_client st)"
  unfolding new_client_def
  by (rule sound_loadTokens)
     (auto simp: sound_def whole_def pair_record_def pair_text_def dest: is_pair_balanced
       split: option.splits)

section \<open>The sample calls\<close>

lemma new_client_a1r1: "new_client (Some (Json_text pair_a1r1)) = holding ''a1'' ''r1'' pair_a1r1"
  by (simp add: new_client_def loadTokens_def pair_a1r1_def holding_def)

lemma refresh_a1r1_ok:
  "refreshAccessToken (answer 200 ''OK'' (Json_text pair_a2r2)) (holding ''a1'' ''r1'' pair_a1r1)
     = (True, holding ''a2'' ''r2'' pair_a2r2, [Refresh_call (Some (JString ''r1''))])"
  by (simp add: refreshAccessToken_def refresh_exchange_def answer_def holding_def ok_def
      response_json_def setTokens_def pair_a2r2_def JSON_stringify_def)

lemma refresh_a1r1_rejected:
  "refreshAccessToken (answer 400 ''Bad Request'' Empty_text) (holding ''a1'' ''r1'' pair_a1r1)
     = (False, logged_out, [Refresh_call (Some (JString ''r1''))])"
  by (simp add: refreshAccessToken_def refresh_exchange_def answer_def holding_def ok_def
      clearTokens_def logged_out_def)

section \<open>Single flight\<close>






























lemma refresh_count_send: "refresh_count (send t w) = refresh_count w"
  by (simp add: refresh_count_def send_def)






section \<open>The claims\<close>

subsection \<open>C1: one refresh exchange at a time\<close>




subsection \<open>C2: one retry after a refreshed 401\<close>

text \<open>
  C2, as stated, fails on "at most two network calls per logical call": the refresh is a
  network call of its own, so a call that is answered 401, refreshes and retries puts three
  calls on the network.
\<close>

theorem request_retries_once_counterexample:
  "snd (snd (request \<lparr>reply = answer 401 ''Unauthorized'' Empty_text,
                       refresh_reply = answer 200 ''OK'' (Json_text pair_a2r2),
                       retry_reply = answer 200 ''OK'' (Json_text profile)\<rparr>
               ''/api/v1/users/me'' get_options True True
               (new_client (Some (Json_text pair_a1r1)))))
     = [Api_call ''/api/v1/users/me''
          [(''Content-Type'', Plain ''application/json''),
           (''Authorization'', Bearer (Some (JString ''a1'')))],
        Refresh_call (Some (JString ''r1'')),
        Api_call ''/api/v1/users/me''
          [(''Content-Type'', Plain ''application/json''),
           (''Authorization'', Bearer (Some (JString ''a2'')))]]
   \<and> length (snd (snd (request \<lparr>reply = answer 401 ''Unauthorized'' Empty_text,
                       refresh_reply = answer 200 ''OK'' (Json_text pair_a2r2),
                       retry_reply = answer 200 ''OK'' (Json_text profile)\<rparr>
               ''/api/v1/users/me'' get_options True True
               (new_client (Some (Json_text pair_a1r1)))))) = 3"
proof -
  let ?n = "\<lparr>reply = answer 401 ''Unauthorized'' Empty_text,
            refresh_reply = answer 200 ''OK'' (Json_text pair_a2r2),
            retry_reply = answer 200 ''OK'' (Json_text profile)\<rparr>"
  let ?r = "\<lparr>status = 401, statusText = ''Unauthorized'', body = Empty_text\<rparr>"
  have a: "reply ?n = Response ?r" and s: "status ?r = 401"
    by (simp_all add: answer_def)
  have h1: "build_headers get_options True (holding ''a1'' ''r1'' pair_a1r1)
              = [(''Content-Type'', Plain ''application/json''),
                 (''Authorization'', Bearer (Some (JString ''a1'')))]"
    by (simp add: build_headers_def caller_headers_def get_options_def holding_def)
  have h2: "build_headers get_options True (holding ''a2'' ''r2'' pair_a2r2)
              = [(''Content-Type'', Plain ''application/json''),
                 (''Authorization'', Bearer (Some (JString ''a2'')))]"
    by (simp add: build_headers_def caller_headers_def get_options_def holding_def)
  show ?thesis
    unfolding new_client_a1r1
    by (simp add: request_unauthorized[OF a s] refresh_a1r1_ok request_no_retry h1 h2)
qed

text \<open>
  C2, amended. A call with \<open>requiresAuth\<close> and \<open>retryOnUnauthorized\<close> both true whose
  fetch is answered with status 401 invokes the refresh. When the refresh returns true the
  call is run again with the retry flag false: that second run puts exactly one further
  call on the network, leaves the client as the refresh left it, and its outcome is the
  outcome of the whole call. When the refresh returns false the call fails with the error
  object of status 401 and message "Session expired. Please login again.". The refresh puts
  at most one call of its own on the network; so a logical call calls its endpoint at most
  twice (one retry) and makes at most three network calls, the refresh included.
\<close>

theorem request_retries_once:
  assumes "reply net = Response resp" and "status resp = 401"
    and "refreshAccessToken (refresh_reply net) c = (refreshed, c', rcalls)"
  shows "(refreshed \<longrightarrow>
            (\<exists>res. request (net\<lparr>reply := retry_reply net\<rparr>) endpoint opts True False c'
                     = (res, c', [Api_call endpoint (build_headers opts True c')])
                 \<and> request net endpoint opts True True c
                     = (res, c', Api_call endpoint (build_headers opts True c) # rcalls
                                  @ [Api_call endpoint (build_headers opts True c')])))
       \<and> (\<not> refreshed \<longrightarrow>
            request net endpoint opts True True c
              = (Inl (Thrown_object [(''status'', JNumber 401),
                        (''message'', JString ''Session expired. Please login again.'')]),
                 c', Api_call endpoint (build_headers opts True c) # rcalls))
       \<and> (rcalls = [] \<or> rcalls = [Refresh_call (refreshToken c)])
       \<and> length (filter is_api_call (snd (snd (request net endpoint opts True True c)))) \<le> 2
       \<and> length (snd (snd (request net endpoint opts True True c))) \<le> 3"
  using assms refresh_calls_shape[OF assms(3)]
    request_calls_le2[of net endpoint opts True True c]
    request_calls_le3[of net endpoint opts True True c]
  by (simp add: request_unauthorized request_no_retry session_expired_def)

text \<open>
  Witness for C2: a 401, then a refresh that succeeds and a retry that returns the profile;
  and a 401 followed by a refresh that the backend rejects with 400.
\<close>

theorem request_retries_once_witness:
  "request \<lparr>reply = answer 401 ''Unauthorized'' Empty_text,
            refresh_reply = answer 200 ''OK'' (Json_text pair_a2r2),
            retry_reply = answer 200 ''OK'' (Json_text profile)\<rparr>
     ''/api/v1/users/me'' get_options True True (holding ''a1'' ''r1'' pair_a1r1)
   = (Inr profile, holding ''a2'' ''r2'' pair_a2r2,
      [Api_call ''/api/v1/users/me''
         (build_headers get_options True (holding ''a1'' ''r1'' pair_a1r1)),
       Refresh_call (Some (JString ''r1'')),
       Api_call ''/api/v1/users/me''
         (build_headers get_options True (holding ''a2'' ''r2'' pair_a2r2))])
   \<and> request \<lparr>reply = answer 401 ''Unauthorized'' Empty_text,
            refresh_reply = answer 400 ''Bad Request'' Empty_text,
            retry_reply = Network_failure\<rparr>
     ''/api/v1/users/me'' get_options True True (holding ''a1'' ''r1'' pair_a1r1)
   = (Inl (Thrown_object [(''status'', JNumber 401),
             (''message'', JString ''Session expired. Please login again.'')]),
      logged_out,
      [Api_call ''/api/v1/users/me''
         (build_headers get_options True (holding ''a1'' ''r1'' pair_a1r1)),
       Refresh_call (Some (JString ''r1''))])"
proof -
  let ?n1 = "\<lparr>reply = answer 401 ''Unauthorized'' Empty_text,
            refresh_reply = answer 200 ''OK'' (Json_text pair_a2r2),
            retry_reply = answer 200 ''OK'' (Json_text profile)\<rparr>"
  let ?n2 = "\<lparr>reply = answer 401 ''Unauthorized'' Empty_text,
            refresh_reply = answer 400 ''Bad Request'' Empty_text,
            retry_reply = Network_failure\<rparr>"
  let ?r = "\<lparr>status = 401, statusText = ''Unauthorized'', body = Empty_text\<rparr>"
  have a1: "reply ?n1 = Response ?r" and a2: "reply ?n2 = Response ?r" and s: "status ?r = 401"
    by (simp_all add: answer_def)
  have b1: "refreshAccessToken (refresh_reply ?n1) (holding ''a1'' ''r1'' pair_a1r1)
              = (True, holding ''a2'' ''r2'' pair_a2r2, [Refresh_call (Some (JString ''r1''))])"
    by (simp add: refresh_a1r1_ok)
  have b2: "refreshAccessToken (refresh_reply ?n2) (holding ''a1'' ''r1'' pair_a1r1)
              = (False, logged_out, [Refresh_call (Some (JString ''r1''))])"
    by (simp add: refresh_a1r1_rejected)
  have inner: "fst (request (?n1\<lparr>reply := retry_reply ?n1\<rparr>) ''/api/v1/users/me'' get_options True False
           (holding ''a2'' ''r2'' pair_a2r2)) = Inr profile"
    by (simp add: request_no_retry answer_def read_response_def ok_def caught_def profile_def)
  from request_retries_once[OF a1 s b1, of "''/api/v1/users/me''" get_options] inner
       request_retries_once[OF a2 s b2, of "''/api/v1/users/me''" get_options]
  show ?thesis by auto
qed

subsection \<open>C3: what the refresh returns and leaves behind\<close>

text \<open>
  C3, as stated, fails where no refresh token is held: the refresh then returns false at
  once and touches nothing, so credentials that were there stay there. Here the stored
  record carries an access token next to an empty refresh token; the client constructed
  over it holds the access token, the refresh returns false, and both the access token and
  the record are still there afterwards.
\<close>

theorem refresh_contract_counterexample:
  "\<not> truthy (refreshToken (new_client (Some (Json_text
        (JObject [(''accessToken'', JString ''a1''), (''refreshToken'', JString [])])))))
   \<and> refreshAccessToken Network_failure (new_client (Some (Json_text
        (JObject [(''accessToken'', JString ''a1''), (''refreshToken'', JString [])]))))
       = (False,
          \<lparr>accessToken = Some (JString ''a1''), refreshToken = Some (JString []),
             isRefreshing = False, refreshPromise = None,
             storage = Some (Json_text
               (JObject [(''accessToken'', JString ''a1''), (''refreshToken'', JString [])]))\<rparr>,
          [])
   \<and> \<not> cleared (fst (snd (refreshAccessToken Network_failure (new_client (Some (Json_text
        (JObject [(''accessToken'', JString ''a1''), (''refreshToken'', JString [])])))))))"
  by (simp add: refreshAccessToken_def new_client_def loadTokens_def cleared_def)

text \<open>
  C3, amended. With no refresh token held, the refresh returns false at once, makes no
  network call and leaves the client as it was. With a refresh token held, it returns true
  exactly when the exchange obtained a pair (a successful response whose body is JSON other
  than \<^verbatim>\<open>null\<close>), and then the client holds that pair's fields and storage holds
  the pair; it returns false in every other case, and then both tokens are
  \<^verbatim>\<open>null\<close> and the stored record is gone.
\<close>

theorem refresh_contract:
  assumes "refreshAccessToken r c = (b, c', calls)"
  shows "(\<not> truthy (refreshToken c) \<longrightarrow> \<not> b \<and> c' = c \<and> calls = [])
       \<and> (truthy (refreshToken c) \<longrightarrow>
            (\<forall>v. obtained_pair r = Some v \<longrightarrow> b \<and> persisted v c')
          \<and> (obtained_pair r = None \<longrightarrow> \<not> b \<and> cleared c'))"
proof (cases "truthy (refreshToken c)")
  case False
  with assms show ?thesis by (simp add: refreshAccessToken_def)
next
  case True
  define c0 where "c0 = (if isRefreshing c \<and> refreshPromise c \<noteq> None then c
                         else c\<lparr>isRefreshing := True, refreshPromise := Some 0\<rparr>)"
  from True assms have ex: "refresh_exchange r c0 = (b, c')"
    by (auto simp: refreshAccessToken_def c0_def split: if_splits prod.splits)
  show ?thesis
  proof (cases "obtained_pair r")
    case None
    from refresh_exchange_failed[OF None, of c0] ex True None show ?thesis by auto
  next
    case (Some v)
    from refresh_exchange_obtained[OF Some, of c0] ex True Some show ?thesis by auto
  qed
qed

text \<open>
  Witness for C3: the exchange of \<open>r1\<close> for a new pair, the exchange the backend rejects,
  and the refresh of a logged-out client.
\<close>

theorem refresh_contract_witness:
  "truthy (refreshToken (holding ''a1'' ''r1'' pair_a1r1))
   \<and> obtained_pair (answer 200 ''OK'' (Json_text pair_a2r2)) = Some pair_a2r2
   \<and> persisted pair_a2r2 (holding ''a2'' ''r2'' pair_a2r2)
   \<and> obtained_pair (answer 400 ''Bad Request'' Empty_text) = None
   \<and> cleared logged_out
   \<and> \<not> truthy (refreshToken logged_out)
   \<and> refreshAccessToken Network_failure logged_out = (False, logged_out, [])"
proof -
  have t: "truthy (refreshToken (holding ''a1'' ''r1'' pair_a1r1))"
    by (simp add: holding_def)
  have o1: "obtained_pair (answer 200 ''OK'' (Json_text pair_a2r2)) = Some pair_a2r2"
    by (simp add: obtained_pair_def answer_def ok_def pair_a2r2_def)
  have o2: "obtained_pair (answer 400 ''Bad Request'' Empty_text) = None"
    by (simp add: obtained_pair_def answer_def ok_def)
  have n: "\<not> truthy (refreshToken logged_out)"
    by (simp add: logged_out_def)
  obtain b c' calls where r: "refreshAccessToken Network_failure logged_out = (b, c', calls)"
    by (cases "refreshAccessToken Network_failure logged_out") auto
  from refresh_contract[OF refresh_a1r1_ok] refresh_contract[OF refresh_a1r1_rejected]
       refresh_contract[OF r] t o1 o2 n r
  show ?thesis by auto
qed

subsection \<open>C4: both credentials or neither\<close>

text \<open>
  C4, as stated, fails: a stored record with only a refresh token yields a client that
  holds one credential without the other, and so does a login answered with an object that
  has only an access token. Nothing in the client checks the shape of what it parses.
\<close>

theorem no_partial_credentials_counterexample:
  "\<not> whole (new_client (Some (Json_text (JObject [(''refreshToken'', JString ''r1'')]))))
   \<and> \<not> whole (perform
         (Login \<lparr>reply = answer 200 ''OK'' (Json_text (JObject [(''accessToken'', JString ''a1'')])),
                 refresh_reply = Network_failure, retry_reply = Network_failure\<rparr>
            ''/api/v1/auth/login'')
         (new_client None))"
  by (simp add: new_client_def loadTokens_def whole_def login_def store_tokens_def request_plain
      answer_def read_response_def ok_def caught_def setTokens_def)

text \<open>
  C4, amended. If the persisted record, every value passed to save, and the JSON body of
  every successful login, register and refresh response is an object carrying both tokens
  as non-empty strings (bodies and records that are empty or not JSON are allowed), then in
  every state reached from construction by save, load, clear, refresh, login, register,
  logout and request, either both credentials are held or neither is.
\<close>

theorem no_partial_credentials:
  assumes "pair_record st" and "list_all pair_operation ops"
  shows "whole (fold perform ops (new_client st))"
  using sound_fold[OF assms(2) sound_new_client[OF assms(1)]] by (simp add: sound_def)

text \<open>
  Witness for C4: a stored pair, then a refreshed request, a logout, a login and a refresh
  that the backend fails.
\<close>

theorem no_partial_credentials_witness:
  "pair_record (Some (Json_text pair_a1r1))
   \<and> list_all pair_operation
        [Request \<lparr>reply = answer 401 ''Unauthorized'' Empty_text,
                  refresh_reply = answer 200 ''OK'' (Json_text pair_a2r2),
                  retry_reply = answer 200 ''OK'' (Json_text profile)\<rparr>
           ''/api/v1/users/me'' get_options True True,
         Logout,
         Login \<lparr>reply = answer 200 ''OK'' (Json_text pair_a1r1), refresh_reply = Network_failure,
                retry_reply = Network_failure\<rparr> ''/api/v1/auth/login'',
         Refresh (answer 500 ''Internal Server Error'' Garbage_text)]
   \<and> whole (fold perform
        [Request \<lparr>reply = answer 401 ''Unauthorized'' Empty_text,
                  refresh_reply = answer 200 ''OK'' (Json_text pair_a2r2),
                  retry_reply = answer 200 ''OK'' (Json_text profile)\<rparr>
           ''/api/v1/users/me'' get_options True True,
         Logout,
         Login \<lparr>reply = answer 200 ''OK'' (Json_text pair_a1r1), refresh_reply = Network_failure,
                retry_reply = Network_failure\<rparr> ''/api/v1/auth/login'',
         Refresh (answer 500 ''Internal Server Error'' Garbage_text)]
        (new_client (Some (Json_text pair_a1r1))))"
proof -
  have r: "pair_record (Some (Json_text pair_a1r1))"
    by (simp add: pair_record_def pair_text_def is_pair_def pair_a1r1_def)
  have l: "list_all pair_operation
        [Request \<lparr>reply = answer 401 ''Unauthorized'' Empty_text,
                  refresh_reply = answer 200 ''OK'' (Json_text pair_a2r2),
                  retry_reply = answer 200 ''OK'' (Json_text profile)\<rparr>
           ''/api/v1/users/me'' get_options True True,
         Logout,
         Login \<lparr>reply = answer 200 ''OK'' (Json_text pair_a1r1), refresh_reply = Network_failure,
                retry_reply = Network_failure\<rparr> ''/api/v1/auth/login'',
         Refresh (answer 500 ''Internal Server Error'' Garbage_text)]"
    by (simp add: pair_reply_def pair_text_def is_pair_def pair_a1r1_def pair_a2r2_def answer_def ok_def)
  from no_partial_credentials[OF r l] r l show ?thesis by simp
qed

subsection \<open>C5: a successful response that does not parse\<close>

text \<open>
  C5, as stated, fails: the exception of \<^verbatim>\<open>JSON.parse\<close> is thrown inside the
  \<^verbatim>\<open>try\<close>, has no status, and the closing \<^verbatim>\<open>catch\<close> replaces it by the
  error object of status 0. The caller sees that object, not the parse exception.
\<close>

theorem unparsable_success_body_counterexample:
  "fst (request \<lparr>reply = answer 201 ''Created'' Garbage_text, refresh_reply = Network_failure,
                  retry_reply = Network_failure\<rparr>
          ''/api/v1/auth/register'' (register_options ''{}'') False True logged_out)
     = Inl (Thrown_object [(''status'', JNumber 0),
              (''message'', JString ''Network error. Please check your connection.'')])"
  by (simp add: request_plain answer_def read_response_def ok_def caught_def catch_all_def
      network_error_def)

text \<open>
  C5, amended. For every response in the success range whose body is not empty and does
  not parse, the call fails with the error object of status 0 and message "Network error.
  Please check your connection."; it makes this one network call and leaves the client
  unchanged.
\<close>

theorem unparsable_success_body:
  assumes "reply net = Response resp" and "ok resp"
    and "body resp \<noteq> Empty_text" and "JSON_parse (body resp) = Inl x"
  shows "request net endpoint opts requiresAuth retry c =
           (Inl network_error, c, [Api_call endpoint (build_headers opts requiresAuth c)])"
proof -
  from assms(2) have "status resp \<noteq> 401" by (auto simp: ok_def)
  with assms show ?thesis
    by (simp add: request_plain read_response_def caught_def catch_all_exception)
qed

text \<open>Witness for C5: status 200 with a body that is not JSON.\<close>

theorem unparsable_success_body_witness:
  "ok \<lparr>status = 200, statusText = ''OK'', body = Garbage_text\<rparr>
   \<and> JSON_parse Garbage_text = Inl SyntaxError
   \<and> request \<lparr>reply = answer 200 ''OK'' Garbage_text, refresh_reply = Network_failure,
               retry_reply = Network_failure\<rparr>
        ''/api/v1/trips/active'' get_options True True (holding ''a1'' ''r1'' pair_a1r1)
      = (Inl network_error, holding ''a1'' ''r1'' pair_a1r1,
         [Api_call ''/api/v1/trips/active''
            (build_headers get_options True (holding ''a1'' ''r1'' pair_a1r1))])"
proof -
  let ?r = "\<lparr>status = 200, statusText = ''OK'', body = Garbage_text\<rparr>"
  let ?n = "\<lparr>reply = answer 200 ''OK'' Garbage_text, refresh_reply = Network_failure,
               retry_reply = Network_failure\<rparr>"
  have a: "reply ?n = Response ?r" by (simp add: answer_def)
  have b: "ok ?r" by (simp add: ok_def)
  have c: "body ?r \<noteq> Empty_text" by simp
  have d: "JSON_parse (body ?r) = Inl SyntaxError" by simp
  from unparsable_success_body[OF a b c d] b show ?thesis by simp
qed

subsection \<open>C6: where status 0 comes from\<close>

text \<open>
  C6, as stated, fails in its second half: status 0 is also what the caller receives when a
  response did arrive, with status 200, and its body does not parse.
\<close>

theorem status_zero_origin_counterexample:
  "reply \<lparr>reply = answer 200 ''OK'' Garbage_text, refresh_reply = Network_failure,
           retry_reply = Network_failure\<rparr> \<noteq> Network_failure
   \<and> fst (request \<lparr>reply = answer 200 ''OK'' Garbage_text, refresh_reply = Network_failure,
                    retry_reply = Network_failure\<rparr>
            ''/api/v1/users/me'' get_options True True (holding ''a1'' ''r1'' pair_a1r1))
       = Inl network_error
   \<and> status_of network_error = Some (JNumber 0)"
  by (simp add: request_plain answer_def read_response_def ok_def caught_def catch_all_def
      network_error_def)

text \<open>
  C6, amended. When the fetch of a call rejects, the caller receives the error object of
  status 0. An error without a truthy status is always that object, and it arises only
  when the fetch of the call or of its retry rejected, or was answered in the success range
  with a non-empty body that does not parse, or was answered with status 0.
\<close>

theorem status_zero_origin:
  "(reply net = Network_failure \<longrightarrow>
      fst (request net endpoint opts requiresAuth retry c) = Inl network_error)
   \<and> (fst (request net endpoint opts requiresAuth retry c) = Inl e \<and> \<not> truthy (status_of e) \<longrightarrow>
        e = network_error \<and> (no_usable_answer (reply net) \<or> no_usable_answer (retry_reply net)))
   \<and> (no_usable_answer (reply net) \<longrightarrow>
        fst (request net endpoint opts requiresAuth retry c) = Inl network_error)
   \<and> network_error = Thrown_object [(''status'', JNumber 0),
        (''message'', JString ''Network error. Please check your connection.'')]"
proof -
  have "fst (request net endpoint opts requiresAuth retry c) = Inl network_error"
    if n: "no_usable_answer (reply net)"
  proof (cases "reply net")
    case Network_failure
    then show ?thesis by (simp add: request_failure)
  next
    case (Response resp)
    with n have "status resp \<noteq> 401" by (auto simp: no_usable_answer_def ok_def)
    with Response n no_usable_answer_throws[of "reply net"] show ?thesis
      by (simp add: request_plain)
  qed
  with request_falsy_error[of net endpoint opts requiresAuth retry c e] show ?thesis
    by (auto simp: no_usable_answer_def network_error_def)
qed

text \<open>Witness for C6: a call whose fetch rejects.\<close>

theorem status_zero_origin_witness:
  "fst (request \<lparr>reply = Network_failure, refresh_reply = Network_failure,
                  retry_reply = Network_failure\<rparr>
          ''/api/v1/users/me'' get_options True True (holding ''a1'' ''r1'' pair_a1r1))
     = Inl (Thrown_object [(''status'', JNumber 0),
              (''message'', JString ''Network error. Please check your connection.'')])
   \<and> \<not> truthy (status_of network_error)
   \<and> no_usable_answer Network_failure"
proof -
  let ?n = "\<lparr>reply = Network_failure, refresh_reply = Network_failure,
                  retry_reply = Network_failure\<rparr>"
  have "reply ?n = Network_failure" by simp
  moreover have "\<not> truthy (status_of network_error)" by (simp add: network_error_def)
  ultimately show ?thesis
    using status_zero_origin[of ?n "''/api/v1/users/me''" get_options True True
        "holding ''a1'' ''r1'' pair_a1r1"]
    by auto
qed

subsection \<open>C7: errors built from a failed response\<close>

text \<open>
  C7, as stated, fails on "verbatim": the status of the error is always the status of the
  response, whatever the body says. A registration answered 409 with a body whose status
  field is 400 reaches the caller with status 409.
\<close>

theorem failed_status_error_counterexample:
  "fst (request \<lparr>reply = answer 409 ''Conflict'' (Json_text conflict_body),
                  refresh_reply = Network_failure, retry_reply = Network_failure\<rparr>
          ''/api/v1/auth/register'' (register_options ''{}'') False True logged_out)
     = Inl (Thrown_object [(''status'', JNumber 409), (''message'', JString ''Email already registered'')])
   \<and> Thrown_object [(''status'', JNumber 409), (''message'', JString ''Email already registered'')]
       \<noteq> Thrown_object (spread conflict_body)"
  by (simp add: request_plain answer_def read_response_def ok_def caught_def catch_all_def
      error_of_def error_data_def response_json_def conflict_body_def)

text \<open>
  C7, amended. For every response outside the success range that is not the handled 401
  case, the call fails with an error object (the error object of status 0 when the response
  status is 0). The object has the response's status as its status and, for every other
  name, the property the error data has under that name. The error data is the body
  whenever the body is JSON of any shape, and is built from the status line (status and
  status text as message) when the body is empty or not JSON.
\<close>

theorem failed_status_error:
  assumes "reply net = Response resp" and "\<not> ok resp"
    and "\<not> (status resp = 401 \<and> requiresAuth \<and> retry)"
  shows "fst (request net endpoint opts requiresAuth retry c)
           = Inl (if status resp = 0 then network_error else error_of resp)
       \<and> (\<exists>fs. error_of resp = Thrown_object fs \<and>
            (\<forall>name. map_of fs name =
               (if name = ''status'' then Some (JNumber (of_nat (status resp)))
                else map_of (spread (error_data resp)) name)))
       \<and> (\<forall>v. body resp = Json_text v \<longrightarrow> error_data resp = v)
       \<and> (body resp = Empty_text \<or> body resp = Garbage_text \<longrightarrow>
            error_of resp = Thrown_object [(''status'', JNumber (of_nat (status resp))),
                                           (''message'', JString (statusText resp))])"
proof -
  have 1: "fst (request net endpoint opts requiresAuth retry c)
           = Inl (if status resp = 0 then network_error else error_of resp)"
    using assms
    by (auto simp: request_plain read_response_def caught_def catch_all_def status_of_error_of)
  have 2: "\<exists>fs. error_of resp = Thrown_object fs \<and>
            (\<forall>name. map_of fs name =
               (if name = ''status'' then Some (JNumber (of_nat (status resp)))
                else map_of (spread (error_data resp)) name))"
    by (auto simp: error_of_def update_conv')
  have 3: "\<forall>v. body resp = Json_text v \<longrightarrow> error_data resp = v"
    by (simp add: error_data_def response_json_def)
  have 4: "body resp = Empty_text \<or> body resp = Garbage_text \<longrightarrow>
            error_of resp = Thrown_object [(''status'', JNumber (of_nat (status resp))),
                                           (''message'', JString (statusText resp))]"
    by (auto simp: error_of_def error_data_def response_json_def)
  from 1 2 3 4 show ?thesis by blast
qed

text \<open>Witness for C7: the 409 answer to a registration.\<close>

theorem failed_status_error_witness:
  "\<not> ok \<lparr>status = 409, statusText = ''Conflict'', body = Json_text conflict_body\<rparr>
   \<and> fst (request \<lparr>reply = answer 409 ''Conflict'' (Json_text conflict_body),
                    refresh_reply = Network_failure, retry_reply = Network_failure\<rparr>
            ''/api/v1/auth/register'' (register_options ''{}'') False True logged_out)
       = Inl (error_of \<lparr>status = 409, statusText = ''Conflict'', body = Json_text conflict_body\<rparr>)
   \<and> error_data \<lparr>status = 409, statusText = ''Conflict'', body = Json_text conflict_body\<rparr>
       = conflict_body"
proof -
  let ?r = "\<lparr>status = 409, statusText = ''Conflict'', body = Json_text conflict_body\<rparr>"
  let ?n = "\<lparr>reply = answer 409 ''Conflict'' (Json_text conflict_body),
                    refresh_reply = Network_failure, retry_reply = Network_failure\<rparr>"
  have a: "reply ?n = Response ?r" by (simp add: answer_def)
  have b: "\<not> ok ?r" by (simp add: ok_def)
  have c: "\<not> (status ?r = 401 \<and> False \<and> True)" by simp
  from failed_status_error[OF a b c, of "''/api/v1/auth/register''" "register_options ''{}''" logged_out] b
  show ?thesis by simp
qed

subsection \<open>C8: calls that do not require authorisation\<close>

text \<open>
  C8. A call with \<open>requiresAuth\<close> false makes one network call whose headers are the
  content type and the caller's own headers: no bearer token is attached, and an
  Authorization header is present only if the caller's options carried one. Whatever the
  response (a 401 included) no refresh call is made, the client is unchanged, and the
  outcome is read from that one response.
\<close>

theorem unauthenticated_request:
  "request net endpoint opts False retry c =
     (caught (case reply net of Network_failure \<Rightarrow> Inl (Thrown_error TypeError)
              | Response resp \<Rightarrow> read_response resp), c,
      [Api_call endpoint (caller_headers opts)])
   \<and> filter is_refresh_call (snd (snd (request net endpoint opts False retry c))) = []
   \<and> build_headers opts False c = caller_headers opts
   \<and> map_of (caller_headers opts) ''Authorization'' \<noteq> Some (Bearer token)
   \<and> (map_of (caller_headers opts) ''Authorization'' = None
        \<longleftrightarrow> ''Authorization'' \<notin> fst ` set (opt_headers opts))"
proof -
  have 1: "request net endpoint opts False retry c =
     (caught (case reply net of Network_failure \<Rightarrow> Inl (Thrown_error TypeError)
              | Response resp \<Rightarrow> read_response resp), c,
      [Api_call endpoint (caller_headers opts)])"
    by (simp add: request.simps[of net endpoint opts False retry c] build_headers_def Let_def
        split: fetch_result.splits)
  have 2: "map_of (caller_headers opts) ''Authorization'' \<noteq> Some (Bearer token)"
    unfolding caller_headers_def by (rule map_of_fold_update_plain) simp
  from 1 2 caller_headers_authorization show ?thesis by (simp add: build_headers_def)
qed

subsection \<open>C9: loading the stored record\<close>

text \<open>
  C9, as stated, fails for a record that is JSON but no pair: an object with only an access
  token is loaded as it is, so the client counts as authenticated, and the record stays in
  storage.
\<close>

theorem load_contract_counterexample:
  "isAuthenticated (new_client (Some (Json_text (JObject [(''accessToken'', JString ''a1'')]))))
   \<and> storage (new_client (Some (Json_text (JObject [(''accessToken'', JString ''a1'')]))))
       = Some (Json_text (JObject [(''accessToken'', JString ''a1'')]))"
  by (simp add: new_client_def loadTokens_def isAuthenticated_def)

text \<open>
  C9, amended. Loading after a save yields the saved tokens and leaves the record in place.
  With no record, or an empty one, both tokens are \<^verbatim>\<open>null\<close> and storage is
  untouched. A record that is not JSON, or is JSON \<^verbatim>\<open>null\<close>, yields
  \<^verbatim>\<open>null\<close> tokens and is removed. Any other JSON record is loaded field by field
  (a missing field as \<^verbatim>\<open>undefined\<close>) and stays in storage.
\<close>

theorem load_contract:
  "(setTokens v c = Inr c1 \<longrightarrow>
        accessToken (new_client (storage c1)) = accessToken c1
      \<and> refreshToken (new_client (storage c1)) = refreshToken c1
      \<and> storage (new_client (storage c1)) = storage c1)
   \<and> (st = None \<or> st = Some Empty_text \<longrightarrow>
        accessToken (new_client st) = Some JNull \<and> refreshToken (new_client st) = Some JNull
        \<and> storage (new_client st) = st)
   \<and> (st' = Some Garbage_text \<or> st' = Some (Json_text JNull) \<longrightarrow> cleared (new_client st'))
   \<and> (w \<noteq> JNull \<longrightarrow> persisted w (new_client (Some (Json_text w))))"
proof -
  have "accessToken (new_client (storage c1)) = accessToken c1
      \<and> refreshToken (new_client (storage c1)) = refreshToken c1
      \<and> storage (new_client (storage c1)) = storage c1"
    if "setTokens v c = Inr c1"
  proof -
    from that have nn: "v \<noteq> JNull" by (auto simp: setTokens_null)
    from setTokens_value[OF nn, of c] that new_client_json[OF nn] show ?thesis
      by (auto simp: persisted_def JSON_stringify_def)
  qed
  with new_client_absent[of st] new_client_unparsable[of st'] new_client_json[of w]
  show ?thesis by blast
qed

text \<open>Witness for C9: a saved pair, no record, a record that is not JSON, a JSON record.\<close>

theorem load_contract_witness:
  "setTokens pair_a1r1 logged_out = Inr (holding ''a1'' ''r1'' pair_a1r1)
   \<and> accessToken (new_client (storage (holding ''a1'' ''r1'' pair_a1r1))) = Some (JString ''a1'')
   \<and> refreshToken (new_client (storage (holding ''a1'' ''r1'' pair_a1r1))) = Some (JString ''r1'')
   \<and> accessToken (new_client None) = Some JNull
   \<and> cleared (new_client (Some Garbage_text))
   \<and> persisted profile (new_client (Some (Json_text profile)))"
proof -
  have s: "setTokens pair_a1r1 logged_out = Inr (holding ''a1'' ''r1'' pair_a1r1)"
    by (simp add: setTokens_def pair_a1r1_def logged_out_def holding_def JSON_stringify_def)
  have p: "profile \<noteq> JNull" by (simp add: profile_def)
  from load_contract[of pair_a1r1 logged_out "holding ''a1'' ''r1'' pair_a1r1" None
        "Some Garbage_text" profile] s p
  show ?thesis by (simp add: holding_def)
qed

subsection \<open>C10: the closing catch\<close>



end
